theory Spec2Isabelle
  imports Main "HOL-Library.Char_ord" "HOL-Library.List_Lexorder"
    "HOL-Library.AList"
begin

section \<open>Strings\<close>

text \<open>
  JavaScript's \<^verbatim>\<open>String.prototype.split(sep)\<close> for a non-empty separator: the
  string is scanned from the left and cut at every occurrence of the separator;
  the pieces are returned in order and there is always at least one piece.
  \<open>cur\<close> is the piece being built.
\<close>

function split_from :: "string \<Rightarrow> string \<Rightarrow> string \<Rightarrow> string list" where
  "split_from sep cur [] = [cur]"
| "split_from sep cur (c # cs) =
     (if sep \<noteq> [] \<and> take (length sep) (c # cs) = sep
      then cur # split_from sep [] (drop (length sep) (c # cs))
      else split_from sep (cur @ [c]) cs)"
  by pat_completeness auto
termination
  by (relation "measure (\<lambda>(sep, cur, rest). length rest)") auto

definition split :: "string \<Rightarrow> string \<Rightarrow> string list" where
  "split s sep = split_from sep [] s"

text \<open>\<^verbatim>\<open>Array.prototype.join(sep)\<close> on an array of strings.\<close>

fun join :: "string list \<Rightarrow> string \<Rightarrow> string" where
  "join [] sep = []"
| "join [p] sep = p"
| "join (p # q # ps) sep = p @ sep @ join (q # ps) sep"

text \<open>\<^verbatim>\<open>String.prototype.endsWith\<close>.\<close>

definition endsWith :: "string \<Rightarrow> string \<Rightarrow> bool" where
  "endsWith s suffix = (length suffix \<le> length s \<and> drop (length s - length suffix) s = suffix)"

section \<open>MemberAccess (astUtils.js)\<close>

record MemberAccess =
  module :: string
  memberName :: string

text \<open>
  \<^verbatim>\<open>splits.splice(0, splits.length - 1)\<close> removes and returns all pieces but the
  last; \<open>splits\<close> is left holding the rest, whose last element is the member.
  Reading the last element of an empty array would give \<^verbatim>\<open>undefined\<close>, which
  the template string of \<open>toString\<close> prints as the word; \<open>split\<close> never returns
  an empty array, so that branch is never taken.
\<close>

definition fromString :: "string \<Rightarrow> MemberAccess" where
  "fromString accessString =
     (let splits = split accessString ''.'';
          removed = take (length splits - 1) splits;
          remaining = drop (length splits - 1) splits;
          modu = join removed ''.'';
          member = (case remaining of [] \<Rightarrow> ''undefined''
                    | _ \<Rightarrow> remaining ! (length remaining - 1))
      in \<lparr>module = modu, memberName = member\<rparr>)"

definition toString :: "MemberAccess \<Rightarrow> string" where
  "toString ma = module ma @ ''.'' @ memberName ma"

section \<open>Literal values\<close>

text \<open>
  The value of a \<^verbatim>\<open>Literal\<close> node: a string, a number, a boolean or
  \<^verbatim>\<open>null\<close>. Numbers are the integer-valued ones whose string form is the
  plain decimal numeral (regular expressions and big integers are left out).
\<close>

datatype lit = LStr string | LNum int | LBool bool | LNull

function show_nat :: "nat \<Rightarrow> string" where
  "show_nat n = (if n < 10 then [''0123456789'' ! n]
                 else show_nat (n div 10) @ [''0123456789'' ! (n mod 10)])"
  by pat_completeness auto
termination
  by (relation "measure id") auto

text \<open>JavaScript's \<^verbatim>\<open>ToString\<close>, as template strings and the default sort apply it.\<close>

fun to_string :: "lit \<Rightarrow> string" where
  "to_string (LStr s) = s"
| "to_string (LNum n) = (if n < 0 then ''-'' @ show_nat (nat (- n)) else show_nat (nat n))"
| "to_string (LBool b) = (if b then ''true'' else ''false'')"
| "to_string LNull = ''null''"

section \<open>Sets (setUtils.js)\<close>

text \<open>
  A JavaScript \<^verbatim>\<open>Set\<close> iterates in insertion order and holds no element twice:
  a list without duplicates, new elements appended. \<open>set_add\<close> is
  \<^verbatim>\<open>Set.prototype.add\<close>, \<open>has\<close> is \<^verbatim>\<open>Set.prototype.has\<close>, \<open>new_Set\<close> is
  \<^verbatim>\<open>new Set(iterable)\<close>; the others are the methods that setUtils.js puts on
  the prototype.
\<close>

type_synonym 'a jsset = "'a list"

definition has :: "'a jsset \<Rightarrow> 'a \<Rightarrow> bool" where
  "has s x = (x \<in> set s)"

definition set_add :: "'a jsset \<Rightarrow> 'a \<Rightarrow> 'a jsset" where
  "set_add s x = (if has s x then s else s @ [x])"

definition new_Set :: "'a list \<Rightarrow> 'a jsset" where
  "new_Set xs = fold (\<lambda>element s. set_add s element) xs []"

definition setUnion :: "'a jsset \<Rightarrow> 'a jsset \<Rightarrow> 'a jsset" where
  "setUnion this other =
     fold (\<lambda>element s. set_add s element) other
       (fold (\<lambda>element s. set_add s element) this [])"

definition setIntersection :: "'a jsset \<Rightarrow> 'a jsset \<Rightarrow> 'a jsset" where
  "setIntersection this other =
     fold (\<lambda>element s. if has other element then set_add s element else s) this []"

definition setDifference :: "'a jsset \<Rightarrow> 'a jsset \<Rightarrow> 'a jsset" where
  "setDifference this other =
     fold (\<lambda>element s. if \<not> has other element then set_add s element else s) this []"

definition setFilter :: "'a jsset \<Rightarrow> ('a \<Rightarrow> bool) \<Rightarrow> 'a jsset" where
  "setFilter this filt =
     fold (\<lambda>element s. if filt element then set_add s element else s) this []"

definition setMap :: "'a jsset \<Rightarrow> ('a \<Rightarrow> 'b) \<Rightarrow> 'b jsset" where
  "setMap this f = fold (\<lambda>element s. set_add s (f element)) this []"

text \<open>
  \<^verbatim>\<open>Array.prototype.sort()\<close> with no comparator: the elements are ordered by
  their string forms, and the sort is stable. Strings compare code unit by code
  unit, a proper prefix first, which on \<open>char list\<close> is the lexicographic order.
\<close>

definition js_sort :: "lit list \<Rightarrow> lit list" where
  "js_sort xs = sort_key to_string xs"

section \<open>Policy creation (main.js)\<close>

text \<open>
  The capabilities of one package: \<^verbatim>\<open>{ modules: ..., globals: ... }\<close>. The same
  shape holds the sets that the extractors return and the sorted arrays of a
  policy entry. The coarse module set holds literal values, every other set
  holds strings (\<open>LStr\<close>).
\<close>

record capabilities =
  modules :: "lit list"
  globals :: "lit list"

text \<open>
  A JavaScript object with string keys: the entries in the order in which the keys
  were first assigned, which is the order of \<^verbatim>\<open>Object.keys\<close> and of
  \<^verbatim>\<open>JSON.stringify\<close> (keys that are array indices, which JavaScript moves to the
  front, do not occur among paths). Assignment \<^verbatim>\<open>o[k] = v\<close> is \<open>AList.update\<close>.
\<close>

type_synonym 'v obj = "(string \<times> 'v) list"






subsection \<open>Serialisation\<close>









subsection \<open>Notions for stating properties of the policy\<close>







section \<open>Paths (the host's path module)\<close>

text \<open>
  \<^verbatim>\<open>path.join\<close> of the POSIX flavour: the non-empty arguments are joined with
  a slash and the result is normalised; empty and dot segments are dropped, a
  double dot removes the segment before it, a trailing slash is kept.
\<close>

fun normalizeString :: "bool \<Rightarrow> string list \<Rightarrow> string list \<Rightarrow> string list" where
  "normalizeString allowAboveRoot res [] = res"
| "normalizeString allowAboveRoot res (seg # segs) =
     (if seg = [] \<or> seg = ''.'' then normalizeString allowAboveRoot res segs
      else if seg = ''..'' then
        (if res \<noteq> [] \<and> last res \<noteq> ''..'' then normalizeString allowAboveRoot (butlast res) segs
         else if allowAboveRoot then normalizeString allowAboveRoot (res @ [''..'']) segs
         else normalizeString allowAboveRoot res segs)
      else normalizeString allowAboveRoot (res @ [seg]) segs)"

definition normalize :: "string \<Rightarrow> string" where
  "normalize p =
     (if p = [] then ''.''
      else let isAbsolute = (hd p = CHR ''/'');
               trailingSeparator = (last p = CHR ''/'');
               q = join (normalizeString (\<not> isAbsolute) [] (split p ''/'')) ''/''
           in if q = [] then (if isAbsolute then ''/'' else if trailingSeparator then ''./'' else ''.'')
              else (if isAbsolute then ''/'' else []) @ q @ (if trailingSeparator then ''/'' else []))"

definition path_join :: "string list \<Rightarrow> string" where
  "path_join args =
     (let joined = join (filter (\<lambda>a. a \<noteq> []) args) ''/''
      in if joined = [] then ''.'' else normalize joined)"


section \<open>Source enumeration (main.js)\<close>

definition isJsFileName :: "string \<Rightarrow> bool" where
  "isJsFileName name = (endsWith name ''.js'' \<or> endsWith name ''.mjs'' \<or> endsWith name ''.cjs'')"

text \<open>
  A directory as \<^verbatim>\<open>fs.readdirSync(dirPath, { withFileTypes: true })\<close> lists it:
  every entry has a name and is a regular file, a directory (with its own
  listing) or something else (a symbolic link, a socket, ...), for which both
  \<^verbatim>\<open>isFile()\<close> and \<^verbatim>\<open>isDirectory()\<close> are false.
\<close>

datatype dirent = File string | Directory string "dirent list" | Other string

text \<open>
  The \<^verbatim>\<open>forEach\<close> over the entries appends to \<open>jsFilePaths\<close> in order: the
  paths found in a directory entry (\<^verbatim>\<open>concat\<close>) or the path of a file entry
  (\<^verbatim>\<open>push\<close>).
\<close>

fun recursiveGetJSFilePaths :: "string \<Rightarrow> dirent list \<Rightarrow> string list" where
  "recursiveGetJSFilePaths dirPath [] = []"
| "recursiveGetJSFilePaths dirPath (File name # entries) =
     (if isJsFileName name then [path_join [dirPath, name]] else [])
       @ recursiveGetJSFilePaths dirPath entries"
| "recursiveGetJSFilePaths dirPath (Directory name sub # entries) =
     (if last (split name ''/'') \<noteq> ''node_modules''
      then recursiveGetJSFilePaths (path_join [dirPath, name]) sub else [])
       @ recursiveGetJSFilePaths dirPath entries"
| "recursiveGetJSFilePaths dirPath (Other name # entries) =
     recursiveGetJSFilePaths dirPath entries"



subsection \<open>What the enumeration is expected to return\<close>

text \<open>
  The regular files of a tree, each with the names of the directories that lead
  to it from the package directory, and the path of such a file.
\<close>

fun files_under :: "dirent list \<Rightarrow> (string list \<times> string) list" where
  "files_under [] = []"
| "files_under (File name # entries) = ([], name) # files_under entries"
| "files_under (Directory name sub # entries) =
     map (\<lambda>(dirs, file). (name # dirs, file)) (files_under sub) @ files_under entries"
| "files_under (Other name # entries) = files_under entries"

definition entry_path :: "string \<Rightarrow> string list \<times> string \<Rightarrow> string" where
  "entry_path dirPath e = path_join [foldl (\<lambda>p d. path_join [p, d]) dirPath (fst e), snd e]"

text \<open>A hidden directory: its name begins with a dot.\<close>

definition hidden :: "string \<Rightarrow> bool" where
  "hidden name = (name \<noteq> [] \<and> hd name = CHR ''.'')"

text \<open>
  The enumeration in the words of the specification: the files with a JavaScript
  extension, not below a directory named \<open>node_modules\<close>, not below a hidden
  directory.
\<close>

definition spec_js_files :: "string \<Rightarrow> dirent list \<Rightarrow> string list" where
  "spec_js_files dirPath entries =
     map (entry_path dirPath)
       (filter (\<lambda>e. isJsFileName (snd e) \<and> ''node_modules'' \<notin> set (fst e)
                     \<and> \<not> (\<exists>d \<in> set (fst e). hidden d))
          (files_under entries))"

text \<open>The same without the clause on hidden directories.\<close>

definition js_files_outside_node_modules :: "string \<Rightarrow> dirent list \<Rightarrow> string list" where
  "js_files_outside_node_modules dirPath entries =
     map (entry_path dirPath)
       (filter (\<lambda>e. isJsFileName (snd e) \<and> ''node_modules'' \<notin> set (fst e))
          (files_under entries))"

text \<open>Names of directory entries contain no slash.\<close>

fun wf_dirents :: "dirent list \<Rightarrow> bool" where
  "wf_dirents [] = True"
| "wf_dirents (File name # entries) = (CHR ''/'' \<notin> set name \<and> wf_dirents entries)"
| "wf_dirents (Directory name sub # entries) =
     (CHR ''/'' \<notin> set name \<and> wf_dirents sub \<and> wf_dirents entries)"
| "wf_dirents (Other name # entries) = (CHR ''/'' \<notin> set name \<and> wf_dirents entries)"

section \<open>Syntax trees (the parser's output)\<close>

text \<open>
  The nodes of the parser's tree that the analysis reads, with the fields it
  reads, typed as in the ESTree description: statements (program, expression
  statement, block, return, variable and function declaration, class), the
  expressions (identifier, literal, call, new, member access, function and arrow
  function, dynamic import), the patterns, and the import and export
  declarations. An identifier carries its name and its source positions
  \<open>start\<close> and \<open>end\<close>; two nodes of a parsed file that are equal as terms are
  the same node, so the source's \<^verbatim>\<open>===\<close> on nodes is equality here. The names
  inside import and export specifiers are kept as strings. A \<open>Program\<close> node is
  the root of a tree and occurs nowhere else.
\<close>

datatype export_specifier = ExportSpecifier string string

datatype node =
    Program "node list"
  | ExpressionStatement node
  | BlockStatement "node list"
  | ReturnStatement "node option"
  | VariableDeclaration string "node list"
  | VariableDeclarator node "node option"
  | FunctionDeclaration "node option" "node list" node
  | FunctionExpression "node option" "node list" node
  | ArrowFunctionExpression "node list" node bool
  | ClassDeclaration "node option" "node option" node
  | ClassBody "node list"
  | MethodDefinition node node
  | Identifier string nat nat
  | Literal lit
  | CallExpression node "node list"
  | NewExpression node "node list"
  | MemberExpression node node bool
  | ImportExpression node
  | ObjectPattern "node list"
  | ArrayPattern "node option list"
  | Property node node
  | RestElement node
  | AssignmentPattern node node
  | ImportDeclaration "node list" node
  | ImportSpecifier string string
  | ImportDefaultSpecifier string
  | ImportNamespaceSpecifier string
  | ExportNamedDeclaration "node option" "export_specifier list" "node option"
  | ExportAllDeclaration "node option" node

text \<open>
  The walker is called with a node and, optionally, the name of a category of
  nodes (\<^verbatim>\<open>override\<close>) in place of the node's own type.
\<close>

datatype override =
  Statement | Expression | Pattern | Function | VariablePattern | MemberPattern | Class

subsection \<open>The table of walkers (acorn-walk, as patched by acornWalkPatch.js)\<close>

text \<open>
  \<^verbatim>\<open>base[type](node, st, c)\<close> calls \<open>c\<close> on the children of the node, one after
  the other: the list of these calls, each with its override. \<open>base_node\<close> is
  the table at the types of the nodes, \<open>base_Pattern\<close>, \<open>base_Function\<close> and
  \<open>base_Class\<close> are the entries of three categories. The entries for
  \<open>ObjectPattern\<close>, \<open>MemberExpression\<close>, \<open>Property\<close> and \<open>MethodDefinition\<close> are
  those of acornWalkPatch.js; an override that is the node's own type is no
  override. The specifiers of an export declaration are not walked.
\<close>

fun function_children :: "node option \<Rightarrow> node list \<Rightarrow> node \<Rightarrow> bool \<Rightarrow> (override option \<times> node) list" where
  "function_children fid params body expression =
     (case fid of None \<Rightarrow> [] | Some i \<Rightarrow> [(Some Pattern, i)])
     @ map (Pair (Some Pattern)) params
     @ [(Some (if expression then Expression else Statement), body)]"

fun base_Pattern :: "node \<Rightarrow> (override option \<times> node) list" where
  "base_Pattern (Identifier name s e) = [(Some VariablePattern, Identifier name s e)]"
| "base_Pattern (MemberExpression obj prop computed) =
     [(Some MemberPattern, MemberExpression obj prop computed)]"
| "base_Pattern n = [(None, n)]"

fun base_Function :: "node \<Rightarrow> (override option \<times> node) list" where
  "base_Function (FunctionDeclaration fid params body) = function_children fid params body False"
| "base_Function (FunctionExpression fid params body) = function_children fid params body False"
| "base_Function (ArrowFunctionExpression params body expression) =
     function_children None params body expression"
| "base_Function n = []"

fun base_Class :: "node \<Rightarrow> (override option \<times> node) list" where
  "base_Class (ClassDeclaration cid superClass body) =
     (case cid of None \<Rightarrow> [] | Some i \<Rightarrow> [(Some Pattern, i)])
     @ (case superClass of None \<Rightarrow> [] | Some s \<Rightarrow> [(Some Expression, s)])
     @ [(None, body)]"
| "base_Class n = []"

fun base_node :: "node \<Rightarrow> (override option \<times> node) list" where
  "base_node (Program body) = map (Pair (Some Statement)) body"
| "base_node (BlockStatement body) = map (Pair (Some Statement)) body"
| "base_node (ExpressionStatement expression) = [(Some Expression, expression)]"
| "base_node (ReturnStatement argument) =
     (case argument of None \<Rightarrow> [] | Some a \<Rightarrow> [(Some Expression, a)])"
| "base_node (VariableDeclaration kind declarations) = map (Pair None) declarations"
| "base_node (VariableDeclarator vid init) =
     (Some Pattern, vid) # (case init of None \<Rightarrow> [] | Some i \<Rightarrow> [(Some Expression, i)])"
| "base_node (FunctionDeclaration fid params body) =
     [(Some Function, FunctionDeclaration fid params body)]"
| "base_node (FunctionExpression fid params body) =
     [(Some Function, FunctionExpression fid params body)]"
| "base_node (ArrowFunctionExpression params body expression) =
     [(Some Function, ArrowFunctionExpression params body expression)]"
| "base_node (ClassDeclaration cid superClass body) =
     [(Some Class, ClassDeclaration cid superClass body)]"
| "base_node (ClassBody body) = map (Pair None) body"
| "base_node (MethodDefinition key val) = [(Some Expression, key), (Some Expression, val)]"
| "base_node (Identifier name s e) = []"
| "base_node (Literal v) = []"
| "base_node (CallExpression callee arguments) =
     (Some Expression, callee) # map (Pair (Some Expression)) arguments"
| "base_node (NewExpression callee arguments) =
     (Some Expression, callee) # map (Pair (Some Expression)) arguments"
| "base_node (MemberExpression obj prop computed) =
     [(Some Expression, obj), (Some Expression, prop)]"
| "base_node (ImportExpression source) = [(Some Expression, source)]"
| "base_node (ObjectPattern properties) = map (Pair None) properties"
| "base_node (ArrayPattern elements) =
     concat (map (\<lambda>elt. case elt of None \<Rightarrow> [] | Some e \<Rightarrow> [(Some Pattern, e)]) elements)"
| "base_node (Property key val) = [(Some Expression, key), (Some Expression, val)]"
| "base_node (RestElement argument) = [(Some Pattern, argument)]"
| "base_node (AssignmentPattern left right) = [(Some Pattern, left), (Some Expression, right)]"
| "base_node (ImportDeclaration specifiers source) =
     map (Pair None) specifiers @ [(Some Expression, source)]"
| "base_node (ImportSpecifier imported local) = []"
| "base_node (ImportDefaultSpecifier local) = []"
| "base_node (ImportNamespaceSpecifier local) = []"
| "base_node (ExportNamedDeclaration declaration specifiers source) =
     (case declaration of None \<Rightarrow> [] | Some d \<Rightarrow> [(Some Statement, d)])
     @ (case source of None \<Rightarrow> [] | Some s \<Rightarrow> [(Some Expression, s)])"
| "base_node (ExportAllDeclaration exported source) =
     (case exported of None \<Rightarrow> [] | Some x \<Rightarrow> [(None, x)]) @ [(Some Expression, source)]"

definition base :: "override option \<Rightarrow> node \<Rightarrow> (override option \<times> node) list" where
  "base type n =
     (case type of
        None \<Rightarrow> base_node n
      | Some Statement \<Rightarrow> [(None, n)]
      | Some Expression \<Rightarrow> [(None, n)]
      | Some MemberPattern \<Rightarrow> [(None, n)]
      | Some VariablePattern \<Rightarrow> []
      | Some Pattern \<Rightarrow> base_Pattern n
      | Some Function \<Rightarrow> base_Function n
      | Some Class \<Rightarrow> base_Class n)"

text \<open>
  Every call of the table is on a smaller node, or on the same node with a
  category of lower rank: the walk ends.
\<close>

fun rank :: "override option \<Rightarrow> nat" where
  "rank None = 2"
| "rank (Some Statement) = 3"
| "rank (Some Expression) = 3"
| "rank (Some MemberPattern) = 3"
| "rank (Some Pattern) = 4"
| "rank (Some Function) = 1"
| "rank (Some Class) = 1"
| "rank (Some VariablePattern) = 0"

lemma size_option_list_member:
  "Some x \<in> set xs \<Longrightarrow> size x < Suc (size_list (size_option size) xs)"
  by (induction xs) auto

lemma size_list_member:
  "x \<in> set xs \<Longrightarrow> size (x :: node) < Suc (size_list size xs)"
  by (induction xs) auto

lemma base_decreases:
  assumes "(ov', n') \<in> set (base ov n)"
  shows "size n' * 5 + rank ov' < size n * 5 + rank ov"
proof (cases ov)
  case None
  with assms show ?thesis
    by (cases n) (auto simp: base_def split: option.splits
        dest: size_list_member size_option_list_member)
next
  case (Some c)
  with assms show ?thesis
    by (cases c; cases n)
       (auto simp: base_def split: option.splits if_splits dest: size_list_member)
qed

section \<open>Errors\<close>

text \<open>
  What the analysis throws: a \<^verbatim>\<open>TypeError\<close> of the runtime (a property of
  \<^verbatim>\<open>undefined\<close> or \<^verbatim>\<open>null\<close> is read), the two errors that the source raises
  itself, and a failure to read or parse a file.
\<close>

datatype error = TypeError | UnknownNodeType | UnknownPatternProperty | IOError

definition and_then :: "error + 'a \<Rightarrow> ('a \<Rightarrow> error + 'b) \<Rightarrow> error + 'b" where
  "and_then m f = (case m of Inl e \<Rightarrow> Inl e | Inr x \<Rightarrow> f x)"

fun foldM :: "('a \<Rightarrow> 's \<Rightarrow> error + 's) \<Rightarrow> 'a list \<Rightarrow> 's \<Rightarrow> error + 's" where
  "foldM f [] s = Inr s"
| "foldM f (x # xs) s = and_then (f x s) (foldM f xs)"

lemma and_then_cong [fundef_cong]:
  "m = m' \<Longrightarrow> (\<And>x. m' = Inr x \<Longrightarrow> f x = g x) \<Longrightarrow> and_then m f = and_then m' g"
  by (auto simp: and_then_def split: sum.splits)

lemma foldM_cong [fundef_cong]:
  "xs = ys \<Longrightarrow> s = t \<Longrightarrow> (\<And>x u. x \<in> set ys \<Longrightarrow> f x u = g x u) \<Longrightarrow> foldM f xs s = foldM g ys t"
proof (induction ys arbitrary: xs s t)
  case Nil
  then show ?case by simp
next
  case (Cons y ys)
  have "foldM f ys u = foldM g ys u" for u
    using Cons.IH [of ys u u] Cons.prems(3) by simp
  then show ?case
    using Cons.prems by (auto simp: and_then_def split: sum.splits)
qed

section \<open>Environments (astUtils.js)\<close>

text \<open>
  An environment with its chain of parents is the list of scopes from the inner
  one outwards; the empty list is the variable \<open>env\<close> before the program node
  has set it (\<^verbatim>\<open>undefined\<close>), on which every method call throws. A variable
  added to an outer scope from an inner one is added in place in the list. The
  fields \<open>start\<close>, \<open>end\<close> and \<open>children\<close> of an environment are never read and
  are left out.
\<close>

datatype EnvironmentTypes = Program_scope | Function_scope | Method_scope | Block_scope

record Variable =
  vname :: string
  vmodule :: "lit option"

record Environment =
  etype :: EnvironmentTypes
  vars :: "Variable list"

type_synonym env = "Environment list"

definition addVar :: "env \<Rightarrow> Variable \<Rightarrow> error + env" where
  "addVar environment variable =
     (case environment of
        [] \<Rightarrow> Inl TypeError
      | e # parents \<Rightarrow> Inr (e\<lparr>vars := vars e @ [variable]\<rparr> # parents))"

text \<open>
  \<open>addVarToFunctionScope\<close>: go up while the scope is neither a function nor a
  method scope and has a parent; add the variable there.
\<close>

fun pushToFunctionScope :: "env \<Rightarrow> Variable \<Rightarrow> env" where
  "pushToFunctionScope [] variable = []"
| "pushToFunctionScope (e # parents) variable =
     (if (etype e \<noteq> Function_scope \<and> etype e \<noteq> Method_scope) \<and> parents \<noteq> []
      then e # pushToFunctionScope parents variable
      else e\<lparr>vars := vars e @ [variable]\<rparr> # parents)"

definition addVarToFunctionScope :: "env \<Rightarrow> Variable \<Rightarrow> error + env" where
  "addVarToFunctionScope environment variable =
     (if environment = [] then Inl TypeError
      else Inr (pushToFunctionScope environment variable))"

fun getVarNamed :: "env \<Rightarrow> string \<Rightarrow> Variable option" where
  "getVarNamed [] name = None"
| "getVarNamed (e # parents) name =
     (case find (\<lambda>variable. vname variable = name) (vars e) of
        Some variable \<Rightarrow> Some variable
      | None \<Rightarrow> getVarNamed parents name)"

definition getModRefVarNamed :: "env \<Rightarrow> string \<Rightarrow> Variable option" where
  "getModRefVarNamed environment name =
     (case getVarNamed environment name of
        None \<Rightarrow> None
      | Some variable \<Rightarrow> (if vmodule variable = None then None else Some variable))"

definition hasVarNamed :: "env \<Rightarrow> string \<Rightarrow> bool" where
  "hasVarNamed environment name = (getVarNamed environment name \<noteq> None)"

text \<open>
  \<^verbatim>\<open>env.getVarNamed(name).setModule(m)\<close>: the first variable of that name in the
  nearest scope that has one is changed in place; when there is none the method
  call is on \<^verbatim>\<open>null\<close>.
\<close>

fun setModuleOfFirst :: "Variable list \<Rightarrow> string \<Rightarrow> lit \<Rightarrow> Variable list" where
  "setModuleOfFirst [] name m = []"
| "setModuleOfFirst (v # vs) name m =
     (if vname v = name then v\<lparr>vmodule := Some m\<rparr> # vs else v # setModuleOfFirst vs name m)"

fun setModuleNamed :: "env \<Rightarrow> string \<Rightarrow> lit \<Rightarrow> error + env" where
  "setModuleNamed [] name m = Inl TypeError"
| "setModuleNamed (e # parents) name m =
     (if find (\<lambda>variable. vname variable = name) (vars e) \<noteq> None
      then Inr (e\<lparr>vars := setModuleOfFirst (vars e) name m\<rparr> # parents)
      else and_then (setModuleNamed parents name m) (\<lambda>parents'. Inr (e # parents')))"

section \<open>Identifiers bound by a pattern (astUtils.js)\<close>

text \<open>
  The callers read only the name of each identifier, so the names are returned.
\<close>

fun identifiersFromNode :: "node \<Rightarrow> error + string list"
  and identifiersFromNodes :: "node list \<Rightarrow> error + string list"
  and identifiersFromElements :: "node option list \<Rightarrow> error + string list" where
  "identifiersFromNode (Identifier name s e) = Inr [name]"
| "identifiersFromNode (RestElement argument) = identifiersFromNode argument"
| "identifiersFromNode (AssignmentPattern left right) = identifiersFromNode left"
| "identifiersFromNode (ObjectPattern properties) = identifiersFromNodes properties"
| "identifiersFromNode (ArrayPattern elements) = identifiersFromElements elements"
| "identifiersFromNode (Property key val) = identifiersFromNode val"
| "identifiersFromNode n = Inl UnknownNodeType"
| "identifiersFromNodes [] = Inr []"
| "identifiersFromNodes (n # ns) =
     and_then (identifiersFromNode n) (\<lambda>a.
     and_then (identifiersFromNodes ns) (\<lambda>b. Inr (a @ b)))"
| "identifiersFromElements [] = Inr []"
| "identifiersFromElements (None # elements) = identifiersFromElements elements"
| "identifiersFromElements (Some element # elements) =
     and_then (identifiersFromNode element) (\<lambda>a.
     and_then (identifiersFromElements elements) (\<lambda>b. Inr (a @ b)))"

text \<open>\<open>declarator.id\<close>; reading \<open>.type\<close> of it throws when there is none.\<close>

fun declaratorId :: "node \<Rightarrow> node option" where
  "declaratorId (VariableDeclarator vid init) = Some vid"
| "declaratorId n = None"

fun identifiersFromVariableDeclaration :: "node list \<Rightarrow> error + string list" where
  "identifiersFromVariableDeclaration [] = Inr []"
| "identifiersFromVariableDeclaration (declarator # declarations) =
     (case declaratorId declarator of
        None \<Rightarrow> Inl TypeError
      | Some vid \<Rightarrow>
          and_then (identifiersFromNode vid) (\<lambda>a.
          and_then (identifiersFromVariableDeclaration declarations) (\<lambda>b. Inr (a @ b))))"

fun specifierLocal :: "node \<Rightarrow> string option" where
  "specifierLocal (ImportSpecifier imported local) = Some local"
| "specifierLocal (ImportDefaultSpecifier local) = Some local"
| "specifierLocal (ImportNamespaceSpecifier local) = Some local"
| "specifierLocal n = None"

section \<open>Scopes and variables during the traversal (astUtils.js)\<close>

fun functionParams :: "node \<Rightarrow> node list option" where
  "functionParams (FunctionDeclaration fid params body) = Some params"
| "functionParams (FunctionExpression fid params body) = Some params"
| "functionParams (ArrowFunctionExpression params body expression) = Some params"
| "functionParams n = None"

fun isFunctionNode :: "node \<Rightarrow> bool" where
  "isFunctionNode (FunctionDeclaration fid params body) = True"
| "isFunctionNode (FunctionExpression fid params body) = True"
| "isFunctionNode (ArrowFunctionExpression params body expression) = True"
| "isFunctionNode n = False"

fun isMethodDefinition :: "node \<Rightarrow> bool" where
  "isMethodDefinition (MethodDefinition key val) = True"
| "isMethodDefinition n = False"

definition isFunction :: "node list \<Rightarrow> bool" where
  "isFunction ancestors =
     (length ancestors \<ge> 2 \<and> isFunctionNode (ancestors ! (length ancestors - 2)))"

definition isMethod :: "node list \<Rightarrow> bool" where
  "isMethod ancestors =
     (length ancestors \<ge> 3 \<and> isMethodDefinition (ancestors ! (length ancestors - 3)))"

text \<open>
  \<^verbatim>\<open>ancestors[ancestors.length - 2].params.map(...)\<close> throws when the parent has
  no parameters.
\<close>

definition initialVarsForFunction :: "node list \<Rightarrow> error + Variable list" where
  "initialVarsForFunction ancestors =
     (if length ancestors < 2 then Inl TypeError
      else case functionParams (ancestors ! (length ancestors - 2)) of
             None \<Rightarrow> Inl TypeError
           | Some params \<Rightarrow>
               and_then (identifiersFromNodes params) (\<lambda>names.
               Inr (map (\<lambda>name. \<lparr>vname = name, vmodule = None\<rparr>) names)))"

text \<open>
  \<^verbatim>\<open>new Environment(type, ..., env, initial_vars); env.addChild(new_env)\<close>.
\<close>

definition newEnvironment :: "EnvironmentTypes \<Rightarrow> env \<Rightarrow> Variable list \<Rightarrow> error + env" where
  "newEnvironment t parent initial_vars =
     (if parent = [] then Inl TypeError
      else Inr (\<lparr>etype = t, vars = initial_vars\<rparr> # parent))"

fun trackScope :: "node \<Rightarrow> node list \<Rightarrow> env \<Rightarrow> error + env" where
  "trackScope (Program body) ancestors environment =
     Inr [\<lparr>etype = Program_scope, vars = []\<rparr>]"
| "trackScope (BlockStatement body) ancestors environment =
     (if isFunction ancestors then
        and_then (initialVarsForFunction ancestors) (newEnvironment Function_scope environment)
      else if isMethod ancestors then
        and_then (initialVarsForFunction ancestors) (newEnvironment Method_scope environment)
      else newEnvironment Block_scope environment [])"
| "trackScope n ancestors environment = Inr environment"

fun trackVars :: "node \<Rightarrow> env \<Rightarrow> error + env" where
  "trackVars (ImportDeclaration specifiers source) environment =
     foldM (\<lambda>specifier e. case specifierLocal specifier of
                             None \<Rightarrow> Inl TypeError
                           | Some local \<Rightarrow> addVar e \<lparr>vname = local, vmodule = None\<rparr>)
       specifiers environment"
| "trackVars (VariableDeclaration kind declarations) environment =
     and_then (identifiersFromVariableDeclaration declarations) (\<lambda>names.
       if kind = ''var''
       then foldM (\<lambda>name e. addVarToFunctionScope e \<lparr>vname = name, vmodule = None\<rparr>) names environment
       else foldM (\<lambda>name e. addVar e \<lparr>vname = name, vmodule = None\<rparr>) names environment)"
| "trackVars n environment = Inr environment"

section \<open>Module-referencing variables and member accesses (extractModules.js)\<close>

fun isIdentifier :: "node \<Rightarrow> bool" where
  "isIdentifier (Identifier name s e) = True"
| "isIdentifier n = False"

fun isLiteral :: "node \<Rightarrow> bool" where
  "isLiteral (Literal v) = True"
| "isLiteral n = False"

text \<open>
  A call or a \<^verbatim>\<open>new\<close> expression whose callee is the identifier \<open>require\<close>
  and that has arguments: its first argument.
\<close>

fun requireArgument :: "node \<Rightarrow> node option" where
  "requireArgument (CallExpression (Identifier name s e) (argument # arguments)) =
     (if name = ''require'' then Some argument else None)"
| "requireArgument (NewExpression (Identifier name s e) (argument # arguments)) =
     (if name = ''require'' then Some argument else None)"
| "requireArgument n = None"

fun stringLiteralValue :: "node \<Rightarrow> string option" where
  "stringLiteralValue (Literal (LStr s)) = Some s"
| "stringLiteralValue n = None"

text \<open>
  The initialiser of a declarator is such a call and its first argument is a
  literal whose value is a string: that string.
\<close>

fun requiredModule :: "node option \<Rightarrow> string option" where
  "requiredModule None = None"
| "requiredModule (Some init) =
     (case requireArgument init of
        None \<Rightarrow> None
      | Some argument \<Rightarrow> stringLiteralValue argument)"

fun validRequireCall :: "node \<Rightarrow> bool" where
  "validRequireCall (VariableDeclarator vid init) =
     (isIdentifier vid \<and> requiredModule init \<noteq> None)"
| "validRequireCall n = False"

text \<open>
  Template strings: \<^verbatim>\<open>${n.name}\<close> prints the name of an identifier and
  \<open>undefined\<close> for a node without a name; \<^verbatim>\<open>typeof(n.name) === 'string'\<close> holds
  for identifiers only; \<^verbatim>\<open>${p.name || p.value}\<close> prints the name of an
  identifier and the value of a literal.
\<close>

fun nameText :: "node \<Rightarrow> string" where
  "nameText (Identifier name s e) = name"
| "nameText n = ''undefined''"

fun hasStringName :: "node \<Rightarrow> bool" where
  "hasStringName (Identifier name s e) = True"
| "hasStringName n = False"

fun memberText :: "node \<Rightarrow> string" where
  "memberText (Identifier name s e) = (if name \<noteq> [] then name else ''undefined'')"
| "memberText (Literal v) = to_string v"
| "memberText n = ''undefined''"

fun initNameText :: "node option \<Rightarrow> string" where
  "initNameText (Some init) = nameText init"
| "initNameText None = ''undefined''"

fun moduleOf :: "Variable \<Rightarrow> string" where
  "moduleOf variable = (case vmodule variable of None \<Rightarrow> ''null'' | Some m \<Rightarrow> to_string m)"

text \<open>The body of the loop over the declarators in \<open>trackModuleReferencingVars\<close>.\<close>

fun trackDeclarator :: "node \<Rightarrow> env \<Rightarrow> error + env" where
  "trackDeclarator (VariableDeclarator vid init) environment =
     (if validRequireCall (VariableDeclarator vid init) then
        (case requiredModule init of
           Some m \<Rightarrow>
             (if environment = [] then Inl TypeError
              else setModuleNamed environment (nameText vid) (LStr m))
         | None \<Rightarrow> Inr environment)
      else case init of
             Some (Identifier initName s e) \<Rightarrow>
               (if isIdentifier vid then
                  (if environment = [] then Inl TypeError
                   else case getModRefVarNamed environment initName of
                          None \<Rightarrow> Inr environment
                        | Some modRefVar \<Rightarrow>
                            (case vmodule modRefVar of
                               Some m \<Rightarrow> setModuleNamed environment (nameText vid) m
                             | None \<Rightarrow> Inr environment))
                else Inr environment)
           | _ \<Rightarrow> Inr environment)"
| "trackDeclarator n environment = Inl TypeError"

fun defaultOrNamespaceLocal :: "node \<Rightarrow> string option" where
  "defaultOrNamespaceLocal (ImportDefaultSpecifier local) = Some local"
| "defaultOrNamespaceLocal (ImportNamespaceSpecifier local) = Some local"
| "defaultOrNamespaceLocal n = None"

fun trackModuleReferencingVars :: "node \<Rightarrow> env \<Rightarrow> error + env" where
  "trackModuleReferencingVars (VariableDeclaration kind declarations) environment =
     foldM trackDeclarator declarations environment"
| "trackModuleReferencingVars (ImportDeclaration specifiers source) environment =
     (case source of
        Literal v \<Rightarrow>
          foldM (\<lambda>specifier e.
                   case defaultOrNamespaceLocal specifier of
                     Some local \<Rightarrow>
                       (if e = [] then Inl TypeError else setModuleNamed e local v)
                   | None \<Rightarrow> Inr e)
            specifiers environment
      | _ \<Rightarrow> Inr environment)"
| "trackModuleReferencingVars n environment = Inr environment"

fun importedNames :: "node list \<Rightarrow> string list" where
  "importedNames [] = []"
| "importedNames (ImportSpecifier imported local # specifiers) = imported # importedNames specifiers"
| "importedNames (n # specifiers) = importedNames specifiers"

text \<open>
  The loop over the properties of an object pattern: \<^verbatim>\<open>property.key.name\<close> of
  every property, nothing for a rest element, an error for anything else.
\<close>

fun propertyKeys :: "node list \<Rightarrow> error + string list" where
  "propertyKeys [] = Inr []"
| "propertyKeys (Property key val # properties) =
     and_then (propertyKeys properties) (\<lambda>keys. Inr (nameText key # keys))"
| "propertyKeys (RestElement argument # properties) = propertyKeys properties"
| "propertyKeys (n # properties) = Inl UnknownPatternProperty"

definition addAll :: "string jsset \<Rightarrow> string list \<Rightarrow> string jsset" where
  "addAll memberAccesses xs = fold (\<lambda>x s. set_add s x) xs memberAccesses"

text \<open>The body of the loop over the declarators in \<open>trackMemberAccess\<close>.\<close>

fun trackDeclaratorMembers :: "node \<Rightarrow> env \<Rightarrow> string jsset \<Rightarrow> error + string jsset" where
  "trackDeclaratorMembers (VariableDeclarator (ObjectPattern properties) init) environment memberAccesses =
     (case requiredModule init of
        Some m \<Rightarrow>
          and_then (propertyKeys properties) (\<lambda>keys.
          Inr (addAll memberAccesses (map (\<lambda>key. m @ ''.'' @ key) keys)))
      | None \<Rightarrow>
          (case init of
             Some (Identifier initName s e) \<Rightarrow>
               (if environment = [] then Inl TypeError
                else case getModRefVarNamed environment initName of
                       None \<Rightarrow> Inr memberAccesses
                     | Some modRefVar \<Rightarrow>
                         and_then (propertyKeys properties) (\<lambda>keys.
                         Inr (addAll memberAccesses
                                (map (\<lambda>key. moduleOf modRefVar @ ''.'' @ key) keys))))
           | _ \<Rightarrow> Inr memberAccesses))"
| "trackDeclaratorMembers (VariableDeclarator (ArrayPattern elements) init) environment memberAccesses =
     (case requiredModule init of
        Some m \<Rightarrow>
          Inr (addAll memberAccesses
                 (map (\<lambda>i. initNameText init @ ''.'' @ show_nat i) [0 ..< length elements]))
      | None \<Rightarrow>
          (case init of
             Some (Identifier initName s e) \<Rightarrow>
               (if environment = [] then Inl TypeError
                else case getModRefVarNamed environment initName of
                       None \<Rightarrow> Inr memberAccesses
                     | Some modRefVar \<Rightarrow>
                         Inr (addAll memberAccesses
                                (map (\<lambda>i. moduleOf modRefVar @ ''.'' @ show_nat i)
                                   [0 ..< length elements])))
           | _ \<Rightarrow> Inr memberAccesses))"
| "trackDeclaratorMembers (VariableDeclarator vid init) environment memberAccesses = Inr memberAccesses"
| "trackDeclaratorMembers n environment memberAccesses = Inl TypeError"

fun trackMemberAccess :: "node \<Rightarrow> env \<Rightarrow> string jsset \<Rightarrow> error + string jsset" where
  "trackMemberAccess (ImportDeclaration specifiers source) environment memberAccesses =
     (case source of
        Literal v \<Rightarrow>
          Inr (addAll memberAccesses
                 (map (\<lambda>imported. to_string v @ ''.'' @ imported) (importedNames specifiers)))
      | _ \<Rightarrow> Inr memberAccesses)"
| "trackMemberAccess (ExportNamedDeclaration declaration specifiers source) environment memberAccesses =
     (case source of
        Some (Literal v) \<Rightarrow>
          Inr (addAll memberAccesses
                 (map (\<lambda>specifier. case specifier of ExportSpecifier local exported \<Rightarrow>
                          to_string v @ ''.'' @ local) specifiers))
      | _ \<Rightarrow> Inr memberAccesses)"
| "trackMemberAccess (MemberExpression obj prop computed) environment memberAccesses =
     (if (isLiteral prop \<or> isIdentifier prop) \<and> isIdentifier obj then
        (if environment = [] then Inl TypeError
         else case getModRefVarNamed environment (nameText obj) of
                None \<Rightarrow> Inr memberAccesses
              | Some modRefVar \<Rightarrow>
                  Inr (set_add memberAccesses (moduleOf modRefVar @ ''.'' @ memberText prop)))
      else case requireArgument obj of
             Some argument \<Rightarrow>
               (if (isLiteral prop \<or> isIdentifier prop) \<and> isLiteral argument \<and> hasStringName argument
                then Inr (set_add memberAccesses (nameText argument @ ''.'' @ memberText prop))
                else Inr memberAccesses)
           | None \<Rightarrow> Inr memberAccesses)"
| "trackMemberAccess (VariableDeclaration kind declarations) environment memberAccesses =
     foldM (\<lambda>declarator s. trackDeclaratorMembers declarator environment s)
       declarations memberAccesses"
| "trackMemberAccess n environment memberAccesses = Inr memberAccesses"

section \<open>The traversal\<close>

text \<open>
  Both traversals (of \<open>extractMemberAccesses\<close> and of \<open>findGlobalsInAST\<close>) are
  the same recursive function \<open>c\<close> around different analyzers. Its state: the
  stack of ancestors, the environment, and what the analyzers collect. The
  analyzers test the type of the node and react to no category, so they run when
  \<open>c\<close> is called without override. On leaving a block the environment saved on
  entering it is restored: the parent of the block's scope.
\<close>

record 'a wstate =
  w_ancestors :: "node list"
  w_env :: env
  w_acc :: 'a

type_synonym 'a analyzer = "node \<Rightarrow> node list \<Rightarrow> env \<Rightarrow> 'a \<Rightarrow> error + env \<times> 'a"

definition isNew :: "node \<Rightarrow> node list \<Rightarrow> bool" where
  "isNew n ancestors = (ancestors = [] \<or> last ancestors \<noteq> n)"

fun isBlockStatement :: "node \<Rightarrow> bool" where
  "isBlockStatement (BlockStatement body) = True"
| "isBlockStatement n = False"

definition enter :: "'a analyzer \<Rightarrow> override option \<Rightarrow> node \<Rightarrow> 'a wstate \<Rightarrow> error + 'a wstate" where
  "enter analyze type n st =
     (let ancestors = (if isNew n (w_ancestors st) then w_ancestors st @ [n] else w_ancestors st)
      in case type of
           Some category \<Rightarrow> Inr (st\<lparr>w_ancestors := ancestors\<rparr>)
         | None \<Rightarrow>
             and_then (trackScope n ancestors (w_env st)) (\<lambda>environment.
             and_then (analyze n ancestors environment (w_acc st)) (\<lambda>(environment', acc).
             Inr \<lparr>w_ancestors = ancestors, w_env = environment', w_acc = acc\<rparr>)))"

definition leave :: "override option \<Rightarrow> node \<Rightarrow> 'a wstate \<Rightarrow> 'a wstate \<Rightarrow> 'a wstate" where
  "leave type n st0 st =
     st\<lparr>w_env := (if type = None \<and> isBlockStatement n then tl (w_env st) else w_env st),
        w_ancestors := (if isNew n (w_ancestors st0) then butlast (w_ancestors st)
                        else w_ancestors st)\<rparr>"

function walk :: "'a analyzer \<Rightarrow> override option \<Rightarrow> node \<Rightarrow> 'a wstate \<Rightarrow> error + 'a wstate" where
  "walk analyze type n st =
     and_then (enter analyze type n st) (\<lambda>st1.
     and_then (foldM (\<lambda>child s. walk analyze (fst child) (snd child) s) (base type n) st1) (\<lambda>st2.
     Inr (leave type n st st2)))"
  by pat_completeness auto
termination
  by (relation "measure (\<lambda>(analyze, type, n, st). size n * 5 + rank type)")
     (auto dest: base_decreases)

declare walk.simps [simp del]

text \<open>The recursive call on a child, under a name of its own.\<close>

definition walkChild :: "'a analyzer \<Rightarrow> override option \<times> node \<Rightarrow> 'a wstate \<Rightarrow> error + 'a wstate" where
  "walkChild analyze child s = walk analyze (fst child) (snd child) s"

definition analyzeMembers :: "string jsset analyzer" where
  "analyzeMembers n ancestors environment memberAccesses =
     and_then (trackVars n environment) (\<lambda>e1.
     and_then (trackModuleReferencingVars n e1) (\<lambda>e2.
     and_then (trackMemberAccess n e2 memberAccesses) (\<lambda>memberAccesses'.
     Inr (e2, memberAccesses'))))"

definition extractMemberAccesses :: "node \<Rightarrow> error + string jsset" where
  "extractMemberAccesses n =
     and_then (walk analyzeMembers None n \<lparr>w_ancestors = [], w_env = [], w_acc = []\<rparr>)
       (\<lambda>st. Inr (w_acc st))"

section \<open>Imports (extractModules.js)\<close>

text \<open>
  \<^verbatim>\<open>acorn_walk.simple(ast, visitors)\<close>: the children first, then the visitor of
  the node's type.
\<close>

fun requireVisitor :: "node \<Rightarrow> node list \<Rightarrow> lit jsset \<Rightarrow> lit jsset" where
  "requireVisitor (Identifier name s e) arguments imports =
     (if name = ''require'' then
        (case arguments of
           Literal v # rest \<Rightarrow> set_add imports v
         | _ \<Rightarrow> imports)
      else imports)"
| "requireVisitor callee arguments imports = imports"

fun sourceVisitor :: "node \<Rightarrow> lit jsset \<Rightarrow> lit jsset" where
  "sourceVisitor (Literal v) imports = set_add imports v"
| "sourceVisitor source imports = imports"

fun visitors :: "node \<Rightarrow> lit jsset \<Rightarrow> lit jsset" where
  "visitors (NewExpression callee arguments) imports = requireVisitor callee arguments imports"
| "visitors (CallExpression callee arguments) imports = requireVisitor callee arguments imports"
| "visitors (ImportDeclaration specifiers source) imports = sourceVisitor source imports"
| "visitors (ImportExpression source) imports = sourceVisitor source imports"
| "visitors (ExportNamedDeclaration declaration specifiers source) imports =
     (case source of None \<Rightarrow> imports | Some s \<Rightarrow> sourceVisitor s imports)"
| "visitors (ExportAllDeclaration exported source) imports = sourceVisitor source imports"
| "visitors n imports = imports"

function simple :: "override option \<Rightarrow> node \<Rightarrow> lit jsset \<Rightarrow> lit jsset" where
  "simple type n imports =
     (let imports' = fold (\<lambda>child s. simple (fst child) (snd child) s) (base type n) imports
      in if type = None then visitors n imports' else imports')"
  by pat_completeness auto
termination
  by (relation "measure (\<lambda>(type, n, imports). size n * 5 + rank type)")
     (auto dest: base_decreases)

declare simple.simps [simp del]

definition simpleChild :: "override option \<times> node \<Rightarrow> lit jsset \<Rightarrow> lit jsset" where
  "simpleChild child s = simple (fst child) (snd child) s"

text \<open>
  The calls that a walk from a node makes, in order: the node itself with its
  override, then the calls made from each child.
\<close>

function visits :: "override option \<Rightarrow> node \<Rightarrow> (override option \<times> node) list" where
  "visits type n = (type, n) # concat (map (\<lambda>child. visits (fst child) (snd child)) (base type n))"
  by pat_completeness auto
termination
  by (relation "measure (\<lambda>(type, n). size n * 5 + rank type)")
     (auto dest: base_decreases)

declare visits.simps [simp del]

definition extractImportsFromAST :: "node \<Rightarrow> lit jsset" where
  "extractImportsFromAST ast = simple None ast []"

section \<open>Globals (extractGlobals.js)\<close>

text \<open>
  The tests of \<open>inGlobalNamespace\<close> on the parent and the grandparent, one
  function for each. \<^verbatim>\<open>NodeTypes.Function\<close> is the type of no node.
\<close>

fun isMemberProperty :: "node \<Rightarrow> node \<Rightarrow> bool" where
  "isMemberProperty (MemberExpression obj prop computed) n = (prop = n)"
| "isMemberProperty parent n = False"

fun isFunctionParam :: "node \<Rightarrow> node \<Rightarrow> bool" where
  "isFunctionParam (FunctionExpression fid params body) n = (n \<in> set params)"
| "isFunctionParam (FunctionDeclaration fid params body) n = (n \<in> set params)"
| "isFunctionParam parent n = False"

fun isMethodKey :: "node \<Rightarrow> node \<Rightarrow> bool" where
  "isMethodKey (MethodDefinition key val) n = (key = n)"
| "isMethodKey parent n = False"

fun isFunctionDeclarationId :: "node \<Rightarrow> node \<Rightarrow> bool" where
  "isFunctionDeclarationId (FunctionDeclaration fid params body) n = (fid = Some n)"
| "isFunctionDeclarationId parent n = False"

fun isDeclaratorId :: "node \<Rightarrow> node \<Rightarrow> bool" where
  "isDeclaratorId (VariableDeclarator vid init) n = (vid = n)"
| "isDeclaratorId parent n = False"

fun isArrayPatternElement :: "node \<Rightarrow> node \<Rightarrow> bool" where
  "isArrayPatternElement (ArrayPattern elements) n = (Some n \<in> set elements)"
| "isArrayPatternElement parent n = False"

fun isProperty :: "node \<Rightarrow> bool" where
  "isProperty (Property key val) = True"
| "isProperty n = False"

fun isObjectPatternProperty :: "node \<Rightarrow> node \<Rightarrow> bool" where
  "isObjectPatternProperty (ObjectPattern properties) parent = (parent \<in> set properties)"
| "isObjectPatternProperty grandParent parent = False"

definition inGlobalNamespace :: "node \<Rightarrow> node list \<Rightarrow> bool" where
  "inGlobalNamespace n ancestors =
     (if length ancestors < 2 then True
      else let parent = ancestors ! (length ancestors - 2) in
        if isMemberProperty parent n then False
        else if isFunctionParam parent n then False
        else if isMethodKey parent n then False
        else if isFunctionDeclarationId parent n then False
        else if isDeclaratorId parent n then False
        else if length ancestors < 3 then True
        else if isArrayPatternElement parent n then False
        else let grandParent = ancestors ! (length ancestors - 3) in
          if isProperty parent \<and> isObjectPatternProperty grandParent parent then False
          else True)"

text \<open>\<open>globalNames\<close> is the set of globalNames.js, given as a list.\<close>

fun isGlobal :: "string list \<Rightarrow> node \<Rightarrow> env \<Rightarrow> node list \<Rightarrow> error + bool" where
  "isGlobal globalNames (Identifier name s e) environment ancestors =
     (if name \<in> set globalNames then
        (if environment = [] then Inl TypeError
         else Inr (\<not> hasVarNamed environment name
                    \<and> inGlobalNamespace (Identifier name s e) ancestors))
      else Inr False)"
| "isGlobal globalNames n environment ancestors = Inr False"

type_synonym global_identifier = "string \<times> nat \<times> nat"

fun trackGlobals ::
  "string list \<Rightarrow> node \<Rightarrow> env \<Rightarrow> node list \<Rightarrow> global_identifier list \<Rightarrow> error + global_identifier list" where
  "trackGlobals globalNames (Identifier name s e) environment ancestors globs =
     and_then (isGlobal globalNames (Identifier name s e) environment ancestors) (\<lambda>g.
       Inr (if g then globs @ [(name, s, e)] else globs))"
| "trackGlobals globalNames n environment ancestors globs = Inr globs"

text \<open>
  \<^verbatim>\<open>node.property.name || node.property.value.toString()\<close>: \<open>toString\<close> of
  \<^verbatim>\<open>null\<close> or \<^verbatim>\<open>undefined\<close> throws.
\<close>

fun globalMemberText :: "node \<Rightarrow> error + string" where
  "globalMemberText (Identifier name s e) = (if name \<noteq> [] then Inr name else Inl TypeError)"
| "globalMemberText (Literal LNull) = Inl TypeError"
| "globalMemberText (Literal v) = Inr (to_string v)"
| "globalMemberText n = Inl TypeError"

fun nonElided :: "node option list \<Rightarrow> nat list" where
  "nonElided elements = filter (\<lambda>i. elements ! i \<noteq> None) [0 ..< length elements]"

fun trackDeclaratorGlobalMembers ::
  "string list \<Rightarrow> node list \<Rightarrow> node \<Rightarrow> env \<Rightarrow> string jsset \<Rightarrow> error + string jsset" where
  "trackDeclaratorGlobalMembers globalNames ancestors (VariableDeclarator vid init) environment globalMembers =
     (case (vid, init) of
        (ObjectPattern properties, Some i) \<Rightarrow>
          and_then (isGlobal globalNames i environment
                      (ancestors @ [VariableDeclarator vid init, i])) (\<lambda>g.
            if g then
              and_then (propertyKeys properties) (\<lambda>keys.
              Inr (addAll globalMembers (map (\<lambda>key. nameText i @ ''.'' @ key) keys)))
            else Inr globalMembers)
      | (ArrayPattern elements, Some i) \<Rightarrow>
          and_then (isGlobal globalNames i environment
                      (ancestors @ [VariableDeclarator vid init, i])) (\<lambda>g.
            if g then
              Inr (addAll globalMembers
                     (map (\<lambda>k. nameText i @ ''.'' @ show_nat k) (nonElided elements)))
            else Inr globalMembers)
      | _ \<Rightarrow> Inr globalMembers)"
| "trackDeclaratorGlobalMembers globalNames ancestors n environment globalMembers = Inl TypeError"

fun trackGlobalMembers ::
  "string list \<Rightarrow> node \<Rightarrow> env \<Rightarrow> node list \<Rightarrow> string jsset \<Rightarrow> error + string jsset" where
  "trackGlobalMembers globalNames (MemberExpression obj prop computed) environment ancestors globalMembers =
     (if isIdentifier prop \<or> isLiteral prop then
        and_then (isGlobal globalNames obj environment (ancestors @ [obj])) (\<lambda>g.
          if g then
            and_then (globalMemberText prop) (\<lambda>member.
            Inr (set_add globalMembers (nameText obj @ ''.'' @ member)))
          else Inr globalMembers)
      else Inr globalMembers)"
| "trackGlobalMembers globalNames (VariableDeclaration kind declarations) environment ancestors globalMembers =
     foldM (\<lambda>declarator s.
              trackDeclaratorGlobalMembers globalNames ancestors declarator environment s)
       declarations globalMembers"
| "trackGlobalMembers globalNames n environment ancestors globalMembers = Inr globalMembers"

definition analyzeGlobals :: "string list \<Rightarrow> (global_identifier list \<times> string jsset) analyzer" where
  "analyzeGlobals globalNames n ancestors environment found =
     and_then (trackVars n environment) (\<lambda>e1.
     and_then (trackGlobals globalNames n e1 ancestors (fst found)) (\<lambda>globs.
     and_then (trackGlobalMembers globalNames n e1 ancestors (snd found)) (\<lambda>globalMembers.
     Inr (e1, (globs, globalMembers)))))"

definition findGlobalsInAST :: "string list \<Rightarrow> node \<Rightarrow> error + string jsset \<times> string jsset" where
  "findGlobalsInAST globalNames n =
     and_then (walk (analyzeGlobals globalNames) None n
                 \<lparr>w_ancestors = [], w_env = [], w_acc = ([], [])\<rparr>) (\<lambda>st.
       Inr (new_Set (map fst (fst (w_acc st))), snd (w_acc st)))"

section \<open>Capabilities of a package (main.js)\<close>

text \<open>
  The files of the packages: the listing of a directory and, for a path, the tree
  that \<open>getASTFromPath\<close> returns (\<open>None\<close> when the parser fails). The host gives
  the names of the globals and of the builtin modules.
\<close>

record filesystem =
  readdir :: "string \<Rightarrow> dirent list"
  parse :: "string \<Rightarrow> node option"

record host =
  hostGlobalNames :: "string list"
  builtinModules :: "string list"

definition NATIVE_MODULES :: "host \<Rightarrow> lit jsset" where
  "NATIVE_MODULES h = new_Set (map LStr (builtinModules h))"

definition getAccessesForPackage ::
  "host \<Rightarrow> filesystem \<Rightarrow> string \<Rightarrow> bool \<Rightarrow> error + capabilities" where
  "getAccessesForPackage h fs packagePath includeCustomModules =
     (let jsFilePaths = recursiveGetJSFilePaths packagePath (readdir fs packagePath) in
      and_then
        (foldM (\<lambda>filePath (mods, globs).
                  case parse fs filePath of
                    None \<Rightarrow> Inr (mods, globs)
                  | Some ast \<Rightarrow>
                      (let fileModules = extractImportsFromAST ast in
                       and_then (findGlobalsInAST (hostGlobalNames h) ast) (\<lambda>(fileGlobals, fileGlobalMembers).
                       Inr (setUnion mods fileModules, setUnion globs fileGlobals))))
           jsFilePaths ([], []))
        (\<lambda>(mods, globs).
           Inr \<lparr>modules = (if \<not> includeCustomModules
                            then setIntersection mods (NATIVE_MODULES h) else mods),
                globals = map LStr globs\<rparr>))"

text \<open>
  \<^verbatim>\<open>.map(fromString)\<close> makes a new object for every string, and a set holds
  distinct objects all: a list. The last \<^verbatim>\<open>.map(toString)\<close> yields a set of
  strings.
\<close>

definition getMemberAccessesForPackage ::
  "host \<Rightarrow> filesystem \<Rightarrow> string \<Rightarrow> error + capabilities" where
  "getMemberAccessesForPackage h fs packagePath =
     (let jsFilePaths = recursiveGetJSFilePaths packagePath (readdir fs packagePath) in
      and_then
        (foldM (\<lambda>filePath (moduleMemberAccesses, globalMemberAccesses).
                  case parse fs filePath of
                    None \<Rightarrow> Inr (moduleMemberAccesses, globalMemberAccesses)
                  | Some ast \<Rightarrow>
                      and_then (extractMemberAccesses ast) (\<lambda>fileModuleMemberAccesses.
                      and_then (findGlobalsInAST (hostGlobalNames h) ast) (\<lambda>(fileGlobals, fileGlobalMemberAccesses).
                      Inr (setUnion moduleMemberAccesses fileModuleMemberAccesses,
                           setUnion globalMemberAccesses fileGlobalMemberAccesses))))
           jsFilePaths ([], []))
        (\<lambda>(moduleMemberAccesses, globalMemberAccesses).
           Inr \<lparr>modules =
                  map LStr
                    (new_Set (map toString
                       (filter (\<lambda>memberAccess. has (NATIVE_MODULES h) (LStr (module memberAccess)))
                          (map fromString moduleMemberAccesses)))),
                globals = map LStr globalMemberAccesses\<rparr>))"

section \<open>Dependency map (dependencyGraph.js)\<close>

text \<open>
  An entry of a version 1 lockfile: \<open>optional\<close>, the names in \<open>requires\<close>, and
  the nested \<open>dependencies\<close>. An entry of \<open>packages\<close> in versions 2 and 3: the
  names in its \<open>dependencies\<close>. An absent object (\<^verbatim>\<open>|| {}\<close>) is an empty list.
\<close>

datatype lock_entry = LockEntry bool "string list" "(string \<times> lock_entry) list"

record lockfile =
  lockfileVersion :: "lit option"
  lockDependencies :: "(string \<times> lock_entry) list option"
  lockPackages :: "(string \<times> string list) list option"

record package_json =
  pjName :: "string option"
  pjDependencies :: "string list"

text \<open>
  The disk: which paths exist, and the parsed content of the manifest and of the
  lockfile at a path (\<open>None\<close> when reading or parsing throws).
\<close>

record disk =
  existsSync :: "string \<Rightarrow> bool"
  readPackageJson :: "string \<Rightarrow> package_json option"
  readLockfile :: "string \<Rightarrow> lockfile option"

definition pushPath :: "string list obj \<Rightarrow> string \<Rightarrow> string \<Rightarrow> string list obj" where
  "pushPath packagePathsMap packageName packagePath =
     (case map_of packagePathsMap packageName of
        None \<Rightarrow> AList.update packageName [packagePath] packagePathsMap
      | Some paths \<Rightarrow> AList.update packageName (paths @ [packagePath]) packagePathsMap)"

definition ensureKey :: "string list obj \<Rightarrow> string \<Rightarrow> string list obj" where
  "ensureKey packagePathsMap packageName =
     (if packageName \<notin> set (map fst packagePathsMap)
      then AList.update packageName [] packagePathsMap else packagePathsMap)"

fun addPackagePathsToMap ::
  "(string \<Rightarrow> bool) \<Rightarrow> (string \<times> lock_entry) list \<Rightarrow> string \<Rightarrow> string list obj \<Rightarrow> string list obj" where
  "addPackagePathsToMap ex [] nodeModulesPath packagePathsMap = packagePathsMap"
| "addPackagePathsToMap ex ((packageName, LockEntry optional requires deps) # packages)
       nodeModulesPath packagePathsMap =
     (let packagePath = path_join [nodeModulesPath, packageName];
          m1 = ensureKey packagePathsMap packageName
      in if optional \<and> \<not> ex packagePath
         then addPackagePathsToMap ex packages nodeModulesPath m1
         else addPackagePathsToMap ex packages nodeModulesPath
                (addPackagePathsToMap ex deps
                   (path_join [nodeModulesPath, packageName, ''node_modules/''])
                   (pushPath m1 packageName packagePath)))"

definition buildPackagePathsMapVersion1 ::
  "(string \<Rightarrow> bool) \<Rightarrow> (string \<times> lock_entry) list \<Rightarrow> string \<Rightarrow> string list obj" where
  "buildPackagePathsMapVersion1 ex lockDeps nodeModulesPath =
     addPackagePathsToMap ex lockDeps nodeModulesPath []"

text \<open>
  \<^verbatim>\<open>array.concat(packagePathsMap[name])\<close>: a missing key appends
  \<^verbatim>\<open>undefined\<close> (\<open>None\<close>).
\<close>

definition concatPaths ::
  "string option list \<Rightarrow> string list obj \<Rightarrow> string \<Rightarrow> string option list" where
  "concatPaths paths packagePathsMap dependencyName =
     (case map_of packagePathsMap dependencyName of
        None \<Rightarrow> paths @ [None]
      | Some found \<Rightarrow> paths @ map Some found)"

fun addDependenciesToMap ::
  "(string \<Rightarrow> bool) \<Rightarrow> string list obj \<Rightarrow> (string \<times> lock_entry) list \<Rightarrow> string
     \<Rightarrow> string option list obj \<Rightarrow> string option list obj" where
  "addDependenciesToMap ex packagePathsMap [] nodeModulesPath dependencyMap = dependencyMap"
| "addDependenciesToMap ex packagePathsMap ((packageName, LockEntry optional requires deps) # packages)
       nodeModulesPath dependencyMap =
     (let packagePath = path_join [nodeModulesPath, packageName]
      in if optional \<and> \<not> ex packagePath
         then addDependenciesToMap ex packagePathsMap packages nodeModulesPath dependencyMap
         else addDependenciesToMap ex packagePathsMap packages nodeModulesPath
                (addDependenciesToMap ex packagePathsMap deps
                   (path_join [nodeModulesPath, packageName, ''node_modules/''])
                   (AList.update packagePath
                      (fold (\<lambda>dependencyName paths. concatPaths paths packagePathsMap dependencyName)
                         requires [])
                      dependencyMap)))"

definition dependencyMapFromLockfileVersion1 ::
  "(string \<Rightarrow> bool) \<Rightarrow> (string \<times> lock_entry) list \<Rightarrow> package_json \<Rightarrow> string
     \<Rightarrow> string option list obj" where
  "dependencyMapFromLockfileVersion1 ex lockDeps packageJson rootPath =
     (let nodeModulesPath = path_join [rootPath, ''node_modules/''];
          packagePathsMap = buildPackagePathsMapVersion1 ex lockDeps nodeModulesPath;
          rootEntry = fold (\<lambda>dependencyName paths. concatPaths paths packagePathsMap dependencyName)
                        (pjDependencies packageJson) []
      in addDependenciesToMap ex packagePathsMap lockDeps nodeModulesPath [(rootPath, rootEntry)])"

definition buildPackagePathsMapVersion2or3 ::
  "(string \<Rightarrow> bool) \<Rightarrow> (string \<times> string list) list \<Rightarrow> string \<Rightarrow> string list obj" where
  "buildPackagePathsMapVersion2or3 ex packages rootPath =
     fold (\<lambda>relativePackagePath packagePathsMap.
             (let packagePath = path_join [rootPath, relativePackagePath];
                  pathParts = split packagePath ''node_modules/'';
                  packageName = pathParts ! (length pathParts - 1);
                  m1 = ensureKey packagePathsMap packageName
              in if \<not> ex packagePath then m1 else pushPath m1 packageName packagePath))
       (map fst packages) []"

definition dependencyMapFromLockfileVersion2or3 ::
  "(string \<Rightarrow> bool) \<Rightarrow> (string \<times> string list) list \<Rightarrow> string \<Rightarrow> string option list obj" where
  "dependencyMapFromLockfileVersion2or3 ex packages rootPath =
     (let packagePathsMap = buildPackagePathsMapVersion2or3 ex packages rootPath
      in fold (\<lambda>(relativePackagePath, deps) dependencyMap.
                 (let packagePath = path_join [rootPath, relativePackagePath]
                  in if \<not> ex packagePath then dependencyMap
                     else AList.update packagePath
                            (fold (\<lambda>dependencyName paths.
                                     if dependencyName \<in> set (map fst packagePathsMap)
                                     then concatPaths paths packagePathsMap dependencyName
                                     else paths)
                               deps [])
                            dependencyMap))
           packages [])"

definition parseLockfile :: "disk \<Rightarrow> string \<Rightarrow> error + lockfile" where
  "parseLockfile d rootPath =
     (let npmShrinkwrapPath = path_join [rootPath, ''npm-shrinkwrap.json'']
      in if existsSync d npmShrinkwrapPath then
           (case readLockfile d npmShrinkwrapPath of
              None \<Rightarrow> Inl IOError | Some parsed \<Rightarrow> Inr parsed)
         else
           (case readLockfile d (path_join [rootPath, ''package-lock.json'']) of
              None \<Rightarrow> Inl IOError | Some parsed \<Rightarrow> Inr parsed))"

definition getDependencyMap :: "disk \<Rightarrow> string \<Rightarrow> error + string option list obj" where
  "getDependencyMap d rootPath =
     (case readPackageJson d (path_join [rootPath, ''package.json'']) of
        None \<Rightarrow> Inl IOError
      | Some packageJson \<Rightarrow>
          and_then (parseLockfile d rootPath) (\<lambda>lock.
            if lockfileVersion lock = Some (LNum 1) then
              (case lockDependencies lock of
                 None \<Rightarrow> Inl TypeError
               | Some lockDeps \<Rightarrow>
                   Inr (dependencyMapFromLockfileVersion1 (existsSync d) lockDeps packageJson rootPath))
            else if lockfileVersion lock = Some (LNum 2) \<or> lockfileVersion lock = Some (LNum 3) then
              (case lockPackages lock of
                 None \<Rightarrow> Inl TypeError
               | Some packages \<Rightarrow>
                   Inr (dependencyMapFromLockfileVersion2or3 (existsSync d) packages rootPath))
            else Inr []))"

section \<open>Capabilities of all packages (main.js)\<close>

definition getCapabilitiesFromDependencyMap ::
  "host \<Rightarrow> filesystem \<Rightarrow> string option list obj \<Rightarrow> bool option \<Rightarrow> bool option
     \<Rightarrow> error + capabilities obj \<times> capabilities obj" where
  "getCapabilitiesFromDependencyMap h fs dependencyMap tracing customModules =
     foldM (\<lambda>packagePath (capabilitiesCoarse, capabilitiesFine).
              and_then (getAccessesForPackage h fs packagePath (customModules = Some True)) (\<lambda>coarse.
                if tracing = Some True then
                  and_then (getMemberAccessesForPackage h fs packagePath) (\<lambda>fine.
                    Inr (AList.update packagePath coarse capabilitiesCoarse,
                         AList.update packagePath fine capabilitiesFine))
                else Inr (AList.update packagePath coarse capabilitiesCoarse, capabilitiesFine)))
       (map fst dependencyMap) ([], [])"

text \<open>
  Lines 334 to 336 of \<open>main\<close>: the packages for which capabilities are
  extracted are the keys of the dependency map.
\<close>

definition analysedPackages ::
  "host \<Rightarrow> filesystem \<Rightarrow> disk \<Rightarrow> string \<Rightarrow> bool option \<Rightarrow> bool option \<Rightarrow> error + string list" where
  "analysedPackages h fs d rootPath tracing customModules =
     and_then (getDependencyMap d rootPath) (\<lambda>dependencyMap.
     and_then (getCapabilitiesFromDependencyMap h fs dependencyMap tracing customModules)
       (\<lambda>capabilities. Inr (map fst (fst capabilities))))"

subsection \<open>An example project\<close>

text \<open>
  A root package at \<open>/r\<close> with one dependency and a lockfile of version 4; every
  package holds one file \<open>index.js\<close> with an empty program.
\<close>

definition disk_version4 :: disk where
  "disk_version4 =
     \<lparr>existsSync = (\<lambda>path. path \<noteq> ''/r/npm-shrinkwrap.json''),
      readPackageJson = (\<lambda>path. Some \<lparr>pjName = Some ''root'', pjDependencies = [''a'']\<rparr>),
      readLockfile = (\<lambda>path.
        Some \<lparr>lockfileVersion = Some (LNum 4), lockDependencies = None,
              lockPackages = Some [('''', [''a'']), (''node_modules/a'', [])]\<rparr>)\<rparr>"

definition host_example :: host where
  "host_example = \<lparr>hostGlobalNames = [''console'', ''process''], builtinModules = [''fs'', ''path'']\<rparr>"

definition files_example :: filesystem where
  "files_example =
     \<lparr>readdir = (\<lambda>path. [File ''index.js'']), parse = (\<lambda>path. Some (Program []))\<rparr>"

section \<open>Facts about splitting and joining\<close>

lemma split_from_nonempty: "split_from sep cur rest \<noteq> []"
  by (induction sep cur rest rule: split_from.induct) auto

lemma join_split_from:
  "sep \<noteq> [] \<Longrightarrow> join (split_from sep cur rest) sep = cur @ rest"
proof (induction sep cur rest rule: split_from.induct)
  case (1 sep cur)
  then show ?case by simp
next
  case (2 sep cur c cs)
  show ?case
  proof (cases "take (length sep) (c # cs) = sep")
    case True
    obtain q qs where q: "split_from sep [] (drop (length sep) (c # cs)) = q # qs"
      using split_from_nonempty by (cases "split_from sep [] (drop (length sep) (c # cs))") auto
    have "join (q # qs) sep = drop (length sep) (c # cs)"
      using 2 True q by simp
    moreover have "sep @ drop (length sep) (c # cs) = c # cs"
      using True by (metis append_take_drop_id)
    ultimately show ?thesis using True 2(3) q by simp
  next
    case False
    then show ?thesis using 2 by simp
  qed
qed

lemma join_split: "sep \<noteq> [] \<Longrightarrow> join (split s sep) sep = s"
  by (simp add: split_def join_split_from)

lemma join_butlast_last:
  "2 \<le> length ps \<Longrightarrow> join ps sep = join (butlast ps) sep @ sep @ last ps"
proof (induction ps sep rule: join.induct)
  case (3 p q ps sep)
  then show ?case by (cases ps) auto
qed auto

lemma split_from_char_two_pieces:
  "c \<in> set rest \<Longrightarrow> 2 \<le> length (split_from [c] cur rest)"
proof (induction rest arbitrary: cur)
  case Nil
  then show ?case by simp
next
  case (Cons d ds)
  show ?case
  proof (cases "d = c")
    case True
    then show ?thesis
      using split_from_nonempty [of "[c]" "[]" ds]
      by (cases "split_from [c] [] ds") auto
  next
    case False
    then show ?thesis using Cons by auto
  qed
qed

lemma split_from_char_last:
  "c \<notin> set cur \<Longrightarrow> c \<notin> set (last (split_from [c] cur rest))"
proof (induction rest arbitrary: cur)
  case Nil
  then show ?case by simp
next
  case (Cons d ds)
  show ?case
  proof (cases "d = c")
    case True
    then show ?thesis
      using Cons.IH [of "[]"] split_from_nonempty [of "[c]" "[]" ds] by simp
  next
    case False
    then show ?thesis using Cons by auto
  qed
qed

section \<open>MemberAccess: the round trip through the canonical string\<close>

lemma fromString_unfold:
  assumes "2 \<le> length (split s ''.'')"
  shows "fromString s =
    \<lparr>module = join (butlast (split s ''.'')) ''.'', memberName = last (split s ''.'')\<rparr>"
proof -
  let ?ps = "split s ''.''"
  have ne: "?ps \<noteq> []" using assms by auto
  have rem: "drop (length ?ps - 1) ?ps = [last ?ps]"
    using ne by (metis append_butlast_last_id append_eq_conv_conj length_butlast)
  have "take (length ?ps - 1) ?ps = butlast ?ps"
    by (simp add: butlast_conv_take)
  then show ?thesis
    unfolding fromString_def Let_def rem by simp
qed

text \<open>
  C9. For every string with at least one dot, \<open>fromString\<close> followed by
  \<open>toString\<close> gives the string back, and the cut is at the right-most dot: the
  string is module, dot, member, and the member contains no dot.
\<close>

theorem fromString_toString_roundtrip:
  assumes "CHR ''.'' \<in> set s"
  shows "toString (fromString s) = s
       \<and> s = module (fromString s) @ ''.'' @ memberName (fromString s)
       \<and> CHR ''.'' \<notin> set (memberName (fromString s))"
proof -
  let ?ps = "split s ''.''"
  have len: "2 \<le> length ?ps"
    using assms split_from_char_two_pieces [of "CHR ''.''" s "[]"] by (simp add: split_def)
  have unf: "fromString s = \<lparr>module = join (butlast ?ps) ''.'', memberName = last ?ps\<rparr>"
    using len by (rule fromString_unfold)
  have "join ?ps ''.'' = join (butlast ?ps) ''.'' @ ''.'' @ last ?ps"
    using len by (rule join_butlast_last)
  then have whole: "s = join (butlast ?ps) ''.'' @ ''.'' @ last ?ps"
    by (simp add: join_split)
  have nodot: "CHR ''.'' \<notin> set (last ?ps)"
    using split_from_char_last [of "CHR ''.''" "[]" s] by (simp add: split_def)
  show ?thesis
    using whole nodot by (simp add: unf toString_def)
qed

theorem fromString_toString_roundtrip_witness:
  "CHR ''.'' \<in> set ''node:fs.promises.readFile''
   \<and> toString (fromString ''node:fs.promises.readFile'') = ''node:fs.promises.readFile''
   \<and> module (fromString ''node:fs.promises.readFile'') = ''node:fs.promises''
   \<and> memberName (fromString ''node:fs.promises.readFile'') = ''readFile''"
proof -
  have h: "CHR ''.'' \<in> set ''node:fs.promises.readFile''" by simp
  have m: "memberName (fromString ''node:fs.promises.readFile'') = ''readFile''"
    by (simp add: fromString_def split_def)
  have md: "module (fromString ''node:fs.promises.readFile'') = ''node:fs.promises''"
    by (simp add: fromString_def split_def)
  show ?thesis
    using h m md fromString_toString_roundtrip [OF h] by simp
qed

section \<open>Sets and the policy: proofs\<close>


lemma set_set_add [simp]: "set (set_add s x) = insert x (set s)"
  by (auto simp: set_add_def has_def)

lemma distinct_set_add [simp]: "distinct s \<Longrightarrow> distinct (set_add s x)"
  by (auto simp: set_add_def has_def)

lemma set_fold_add: "set (fold (\<lambda>element s. set_add s element) xs s0) = set s0 \<union> set xs"
  by (induction xs arbitrary: s0) auto

lemma distinct_fold_add:
  "distinct s0 \<Longrightarrow> distinct (fold (\<lambda>element s. set_add s element) xs s0)"
  by (induction xs arbitrary: s0) auto


lemma distinct_new_Set [simp]: "distinct (new_Set xs)"
  by (simp add: new_Set_def distinct_fold_add)

lemma set_setUnion [simp]: "set (setUnion a b) = set a \<union> set b"
  by (simp add: setUnion_def set_fold_add)

lemma distinct_setUnion [simp]: "distinct (setUnion a b)"
  by (simp add: setUnion_def distinct_fold_add)


lemma set_js_sort [simp]: "set (js_sort xs) = set xs"
  by (simp add: js_sort_def)

lemma distinct_js_sort [simp]: "distinct (js_sort xs) = distinct xs"
  by (simp add: js_sort_def)

lemma sorted_js_sort [simp]: "sorted (map to_string (js_sort xs))"
  by (simp add: js_sort_def)




























text \<open>
  Why the string forms must differ: the number 5 and the string 5 print alike, the
  sort is stable, and the array keeps the order in which the files put them in.
\<close>

lemma js_sort_mixed_types:
  "js_sort [LNum 5, LStr ''5''] = [LNum 5, LStr ''5'']"
  "js_sort [LStr ''5'', LNum 5] = [LStr ''5'', LNum 5]"
  by (simp_all add: js_sort_def)

section \<open>Source enumeration: proofs\<close>

lemma split_from_no_sep:
  "c \<notin> set rest \<Longrightarrow> split_from [c] cur rest = [cur @ rest]"
  by (induction rest arbitrary: cur) auto

lemma split_no_sep: "c \<notin> set name \<Longrightarrow> split name [c] = [name]"
  by (simp add: split_def split_from_no_sep)

lemma js_files_Directory:
  "js_files_outside_node_modules dirPath (Directory name sub # entries) =
     (if name \<noteq> ''node_modules''
      then js_files_outside_node_modules (path_join [dirPath, name]) sub else [])
     @ js_files_outside_node_modules dirPath entries"
  by (simp add: js_files_outside_node_modules_def filter_map o_def case_prod_beta entry_path_def
      filter_empty_conv)

text \<open>
  C5, as amended. \<open>recursiveGetJSFilePaths\<close> returns exactly the regular files
  under the package directory whose names end in \<open>.js\<close>, \<open>.mjs\<close> or \<open>.cjs\<close>
  and that lie below no directory named \<open>node_modules\<close>, in the order of the
  listings. Hidden directories are searched like any other.
\<close>

theorem recursiveGetJSFilePaths_exact:
  "wf_dirents entries \<Longrightarrow>
     recursiveGetJSFilePaths dirPath entries = js_files_outside_node_modules dirPath entries"
proof (induction dirPath entries rule: recursiveGetJSFilePaths.induct)
  case (1 dirPath)
  then show ?case by (simp add: js_files_outside_node_modules_def)
next
  case (2 dirPath name entries)
  then show ?case by (simp add: js_files_outside_node_modules_def entry_path_def)
next
  case (3 dirPath name sub entries)
  then show ?case by (simp add: js_files_Directory split_no_sep)
next
  case (4 dirPath name entries)
  then show ?case by (simp add: js_files_outside_node_modules_def)
qed

text \<open>
  C5 as stated fails: a file in a hidden directory is returned, which the
  specification's enumeration leaves out.
\<close>

theorem recursiveGetJSFilePaths_hidden_counterexample:
  "recursiveGetJSFilePaths ''/p'' [Directory ''.hidden'' [File ''a.js'']] = [''/p/.hidden/a.js'']
   \<and> spec_js_files ''/p'' [Directory ''.hidden'' [File ''a.js'']] = []
   \<and> set (recursiveGetJSFilePaths ''/p'' [Directory ''.hidden'' [File ''a.js'']])
       \<noteq> set (spec_js_files ''/p'' [Directory ''.hidden'' [File ''a.js'']])"
  by (simp add: spec_js_files_def hidden_def isJsFileName_def endsWith_def path_join_def
      normalize_def split_def Let_def)

theorem recursiveGetJSFilePaths_exact_witness:
  "wf_dirents [File ''index.js'', File ''README.md'', Directory ''node_modules'' [File ''x.js''],
       Directory ''lib'' [File ''a.cjs'', Other ''link.js'']]
   \<and> recursiveGetJSFilePaths ''/p'' [File ''index.js'', File ''README.md'',
       Directory ''node_modules'' [File ''x.js''],
       Directory ''lib'' [File ''a.cjs'', Other ''link.js'']] = [''/p/index.js'', ''/p/lib/a.cjs'']"
proof -
  let ?t = "[File ''index.js'', File ''README.md'', Directory ''node_modules'' [File ''x.js''],
       Directory ''lib'' [File ''a.cjs'', Other ''link.js'']]"
  have wf: "wf_dirents ?t" by simp
  have "js_files_outside_node_modules ''/p'' ?t = [''/p/index.js'', ''/p/lib/a.cjs'']"
    by (simp add: js_files_outside_node_modules_def entry_path_def isJsFileName_def endsWith_def
        path_join_def normalize_def split_def Let_def)
  then show ?thesis
    using wf recursiveGetJSFilePaths_exact [OF wf, of "''/p''"] by simp
qed

section \<open>Evaluating the traversals\<close>

lemma and_then_Inr: "and_then (Inr x) f = f x"
  by (simp add: and_then_def)

lemma and_then_Inl: "and_then (Inl e) f = Inl e"
  by (simp add: and_then_def)

lemma and_then_weak_cong: "m = m' \<Longrightarrow> and_then m f = and_then m' f"
  by simp

lemma walk_unfold:
  "walk analyze type n st =
     and_then (enter analyze type n st) (\<lambda>st1.
     and_then (foldM (walkChild analyze) (base type n) st1) (\<lambda>st2.
     Inr (leave type n st st2)))"
  unfolding walkChild_def by (subst walk.simps) (rule refl)

lemma walkChild_unfold: "walkChild analyze (type, n) s = walk analyze type n s"
  by (simp add: walkChild_def)

lemma simple_unfold:
  "simple type n imports =
     (let imports' = fold simpleChild (base type n) imports
      in if type = None then visitors n imports' else imports')"
  unfolding simpleChild_def by (subst simple.simps) (rule refl)

lemma simpleChild_unfold: "simpleChild (type, n) s = simple type n s"
  by (simp add: simpleChild_def)

lemmas eval_simps =
  walk_unfold walkChild_unfold simple_unfold simpleChild_unfold base_def enter_def leave_def
  and_then_Inr and_then_Inl isNew_def Let_def analyzeMembers_def analyzeGlobals_def
  extractMemberAccesses_def extractImportsFromAST_def findGlobalsInAST_def
  isFunction_def isMethod_def initialVarsForFunction_def newEnvironment_def
  addVar_def addVarToFunctionScope_def getModRefVarNamed_def hasVarNamed_def
  addAll_def set_add_def has_def new_Set_def inGlobalNamespace_def

section \<open>Member accesses on a direct require call\<close>

text \<open>
  The branch of \<open>trackMemberAccess\<close> for a member expression on a call tests
  \<^verbatim>\<open>typeof(node.object.arguments[0].name) === 'string'\<close> on an argument that is a
  literal, and a literal has no name: whatever the call, nothing is recorded.
\<close>

lemma trackMemberAccess_on_call:
  "trackMemberAccess (MemberExpression (CallExpression callee arguments) prop computed)
     environment memberAccesses = Inr memberAccesses"
  "trackMemberAccess (MemberExpression (NewExpression callee arguments) prop computed)
     environment memberAccesses = Inr memberAccesses"
proof -
  have "\<not> (isLiteral argument \<and> hasStringName argument)" for argument
    by (cases argument) simp_all
  then show
    "trackMemberAccess (MemberExpression (CallExpression callee arguments) prop computed)
       environment memberAccesses = Inr memberAccesses"
    "trackMemberAccess (MemberExpression (NewExpression callee arguments) prop computed)
       environment memberAccesses = Inr memberAccesses"
    by (auto split: option.splits)
qed

text \<open>
  C1. The claim: \<^verbatim>\<open>require('m').x\<close> records \<open>m.x\<close>. The code, on the tree of
  \<^verbatim>\<open>require('fs').readFile;\<close>, records nothing.
\<close>

theorem extractMemberAccesses_direct_require:
  "extractMemberAccesses
     (Program [ExpressionStatement
        (MemberExpression
           (CallExpression (Identifier ''require'' 0 7) [Literal (LStr ''fs'')])
           (Identifier ''readFile'' 14 22) False)])
   = Inr []"
  by (simp add: eval_simps cong: and_then_weak_cong)

text \<open>The same member read through a variable bound to the module is recorded.\<close>

lemma extractMemberAccesses_bound_require:
  "extractMemberAccesses
     (Program [VariableDeclaration ''const''
                 [VariableDeclarator (Identifier ''fs'' 6 8)
                    (Some (CallExpression (Identifier ''require'' 11 18) [Literal (LStr ''fs'')]))],
               ExpressionStatement
                 (MemberExpression (Identifier ''fs'' 26 28) (Identifier ''readFile'' 29 37) False)])
   = Inr [''fs.readFile'']"
  by (simp add: eval_simps cong: and_then_weak_cong)

section \<open>Array patterns on a require call\<close>

text \<open>
  The loop over the elements of the pattern prints \<^verbatim>\<open>declarator.init.name\<close>, and
  the initialiser is the call, which has no name.
\<close>

lemma trackDeclaratorMembers_array_require:
  "trackDeclaratorMembers
     (VariableDeclarator (ArrayPattern elements)
        (Some (CallExpression (Identifier ''require'' s e) (Literal (LStr m) # arguments))))
     environment memberAccesses
   = Inr (addAll memberAccesses
            (map (\<lambda>i. ''undefined.'' @ show_nat i) [0 ..< length elements]))"
  by simp

text \<open>
  C3. The claim: \<^verbatim>\<open>const [a, b] = require('m')\<close> records \<open>m.0\<close> and \<open>m.1\<close>. The
  code records \<open>undefined.0\<close> and \<open>undefined.1\<close>.
\<close>

theorem extractMemberAccesses_array_pattern_require:
  "extractMemberAccesses
     (Program [VariableDeclaration ''const''
                 [VariableDeclarator
                    (ArrayPattern [Some (Identifier ''a'' 7 8), Some (Identifier ''b'' 10 11)])
                    (Some (CallExpression (Identifier ''require'' 15 22) [Literal (LStr ''m'')]))]])
   = Inr [''undefined.0'', ''undefined.1'']"
  by (simp add: eval_simps cong: and_then_weak_cong)

section \<open>Parameters and the global namespace\<close>

text \<open>
  For the parameter of a function declaration or of a function expression,
  \<open>inGlobalNamespace\<close> answers that it is no referring use.
\<close>

lemma inGlobalNamespace_function_parameter:
  assumes "parent = FunctionDeclaration fid params body \<or> parent = FunctionExpression fid params body"
    and "n \<in> set params"
  shows "\<not> inGlobalNamespace n (ancestors @ [parent, n])"
proof -
  have "(ancestors @ [parent, n]) ! (length (ancestors @ [parent, n]) - 2) = parent"
    by (simp add: nth_append)
  moreover have "isFunctionParam parent n"
    using assms by auto
  ultimately show ?thesis
    by (simp add: inGlobalNamespace_def Let_def)
qed


text \<open>
  The traversal itself visits a parameter as a pattern, never with the type
  \<open>Identifier\<close>, so \<open>trackGlobals\<close> does not ask the question for it: on
  \<^verbatim>\<open>(console) => 0\<close> no global is recorded. A use of the parameter in the body
  of an arrow function without a block is recorded, since no scope holds the
  parameter: \<^verbatim>\<open>(console) => console.log\<close>.
\<close>

lemma findGlobalsInAST_arrow_parameter:
  "findGlobalsInAST [''console'']
     (Program [ExpressionStatement
        (ArrowFunctionExpression [Identifier ''console'' 1 8] (Literal (LNum 0)) True)])
   = Inr ([], [])"
  "findGlobalsInAST [''console'']
     (Program [ExpressionStatement
        (ArrowFunctionExpression [Identifier ''console'' 1 8]
           (MemberExpression (Identifier ''console'' 13 20) (Identifier ''log'' 21 24) False) True)])
   = Inr ([''console''], [''console.log''])"
  by (simp_all add: eval_simps cong: and_then_weak_cong)

section \<open>Lockfiles of an unknown version\<close>

lemma getCapabilitiesFromDependencyMap_empty:
  "getCapabilitiesFromDependencyMap h fs [] tracing customModules = Inr ([], [])"
  by (simp add: getCapabilitiesFromDependencyMap_def)

text \<open>
  C2, as amended. When the version of the lockfile is none of 1, 2 and 3,
  \<open>getDependencyMap\<close> returns the empty map, and capabilities are extracted for
  no package at all: both capability objects are empty.
\<close>

theorem getDependencyMap_unknown_version:
  assumes "readPackageJson d (path_join [rootPath, ''package.json'']) = Some packageJson"
    and "parseLockfile d rootPath = Inr lock"
    and "lockfileVersion lock \<noteq> Some (LNum 1)"
    and "lockfileVersion lock \<noteq> Some (LNum 2)"
    and "lockfileVersion lock \<noteq> Some (LNum 3)"
  shows "getDependencyMap d rootPath = Inr []
       \<and> getCapabilitiesFromDependencyMap h fs [] tracing customModules = Inr ([], [])
       \<and> analysedPackages h fs d rootPath tracing customModules = Inr []"
proof -
  have m: "getDependencyMap d rootPath = Inr []"
    using assms by (simp add: getDependencyMap_def and_then_def)
  then show ?thesis
    by (simp add: analysedPackages_def getCapabilitiesFromDependencyMap_empty and_then_def)
qed

theorem getDependencyMap_unknown_version_witness:
  "readPackageJson disk_version4 (path_join [''/r'', ''package.json''])
     = Some \<lparr>pjName = Some ''root'', pjDependencies = [''a'']\<rparr>
   \<and> parseLockfile disk_version4 ''/r''
     = Inr \<lparr>lockfileVersion = Some (LNum 4), lockDependencies = None,
            lockPackages = Some [('''', [''a'']), (''node_modules/a'', [])]\<rparr>
   \<and> getDependencyMap disk_version4 ''/r'' = Inr []
   \<and> analysedPackages host_example files_example disk_version4 ''/r'' (Some True) None = Inr []"
proof -
  have p: "readPackageJson disk_version4 (path_join [''/r'', ''package.json''])
     = Some \<lparr>pjName = Some ''root'', pjDependencies = [''a'']\<rparr>"
    by (simp add: disk_version4_def)
  have l: "parseLockfile disk_version4 ''/r''
     = Inr \<lparr>lockfileVersion = Some (LNum 4), lockDependencies = None,
            lockPackages = Some [('''', [''a'']), (''node_modules/a'', [])]\<rparr>"
    by (simp add: parseLockfile_def disk_version4_def Let_def)
  show ?thesis
    using p l getDependencyMap_unknown_version [OF p l, of host_example files_example "Some True" None]
    by simp
qed

text \<open>
  C2 as stated fails: with a lockfile of version 4 the root package is not
  analysed either.
\<close>

theorem analysedPackages_version4_counterexample:
  "analysedPackages host_example files_example disk_version4 ''/r'' (Some True) None = Inr []
   \<and> analysedPackages host_example files_example disk_version4 ''/r'' (Some True) None
       \<noteq> Inr [''/r'']"
  by (simp add: analysedPackages_def getDependencyMap_def parseLockfile_def disk_version4_def
      getCapabilitiesFromDependencyMap_def and_then_def Let_def)

end
